theory Spec2Isabelle
  imports Main
begin

section \<open>The XDSM figure scripts\<close>

text \<open>
  The repository consists of two scripts, \<^verbatim>\<open>constraint_analysis_xdsm.py\<close> and
  \<^verbatim>\<open>weight_estimation_xdsm.py\<close>. Each one creates an \<^verbatim>\<open>XDSM\<close> object and calls its
  methods in a fixed order. The class itself is imported from the \<^verbatim>\<open>pyxdsm\<close>
  package; the scripts are modelled by the statements they execute, and an
  \<^verbatim>\<open>XDSM\<close> object by the constructor argument and the method calls it has received.
\<close>

subsection \<open>Values passed to the library\<close>

text \<open>
  The names \<^verbatim>\<open>OPT\<close>, \<^verbatim>\<open>SOLVER\<close>, \<^verbatim>\<open>FUNC\<close> and \<^verbatim>\<open>IFUNC\<close> imported by both scripts
  are the node styles.
\<close>

datatype style = OPT | SOLVER | FUNC | IFUNC

text \<open>
  A label argument is either one string (\<^verbatim>\<open>r'(W/S)'\<close>) or a list or tuple of strings.
\<close>

datatype label = Text string | Lines "string list"

text \<open>
  The labels are raw Python strings holding LaTeX; \<open>bs\<close> is the backslash character.
\<close>

definition bs :: char where
  "bs = CHR 0x5C"

text \<open>
  One method call on an \<^verbatim>\<open>XDSM\<close> object, keyword arguments at their defaults where
  the script leaves them out (\<^verbatim>\<open>stack=False\<close>, \<^verbatim>\<open>faded=False\<close>):
  \<^item> \<open>Add_system node_name style label stack faded\<close>
  \<^item> \<open>Connect src target label stack\<close>
  \<^item> \<open>Add_input name label\<close>, \<open>Add_output name label\<close>
  \<^item> \<open>Add_process systems\<close>
  \<^item> \<open>Write file_name build cleanup quiet outdir\<close>
\<close>

datatype call =
    Add_system string style label bool bool
  | Connect string string label bool
  | Add_input string label
  | Add_output string label
  | Add_process "string list"
  | Write string bool bool bool string

text \<open>
  A statement of a script: \<^verbatim>\<open>x = XDSM(use_sfmath=b)\<close> or a method call \<^verbatim>\<open>x.m(...)\<close>.
\<close>

datatype stmt = New_XDSM bool | Call call

subsection \<open>\<^verbatim>\<open>constraint_analysis_xdsm.py\<close>\<close>

definition constraint_analysis_calls :: "call list" where
  "constraint_analysis_calls =
   [Add_system ''opt'' OPT
      (Lines [bs # ''text{($T/W$) and ($W/S$)}'', bs # ''text{Optimization}'']) False False,
    Add_system ''aero'' FUNC (Lines [bs # ''text{Drag}'', bs # ''text{Polar}'']) False False,
    Add_system ''stall'' IFUNC
      (Lines [bs # ''text{Stall Speed}'', bs # ''text{Constraint}'']) False False,
    Add_system ''climb'' IFUNC
      (Lines [bs # ''text{Climb}'', bs # ''text{Constraints}'']) True False,
    Add_system ''cruise'' IFUNC
      (Lines [bs # ''text{Cruise}'', bs # ''text{Constraint}'']) False False,
    Add_system ''others'' IFUNC
      (Lines [bs # ''text{Other Mission}'', bs # ''text{Constraints}'']) True False,
    Connect ''opt'' ''climb'' (Text ''(W/S)'') True,
    Connect ''opt'' ''cruise'' (Text ''(W/S)'') False,
    Connect ''opt'' ''others'' (Text ''(W/S)'') True,
    Connect ''aero'' ''stall'' (Text ''C_{D_0}, k'') False,
    Connect ''aero'' ''climb'' (Text ''C_{D_0}, k'') True,
    Connect ''aero'' ''cruise'' (Text ''C_{D_0}, k'') False,
    Connect ''aero'' ''others'' (Text ''C_{D_0}, k'') True,
    Connect ''stall'' ''opt'' (Text (''(W/S)_'' @ bs # ''text{stall}'')) False,
    Connect ''climb'' ''opt'' (Text (''(T/W)_'' @ bs # ''text{climb}'')) True,
    Connect ''cruise'' ''opt'' (Text (''(T/W)_'' @ bs # ''text{cruise}'')) False,
    Connect ''others'' ''opt'' (Text (''(T/W)_'' @ bs # ''text{others}'')) True,
    Add_input ''opt'' (Text ''(T/W)_0, (W/S)_0''),
    Add_input ''aero''
      (Lines [''c_f, S_'' @ bs # ''text{wet}/S_'' @ bs # ''text{ref}'',
              ''AR, e, C_{L_{'' @ bs # ''alpha=0}}'']),
    Add_input ''stall''
      (Text (''C_{L_'' @ bs # ''text{max}}, V_'' @ bs # ''text{stall}'')),
    Add_input ''climb'' (Text ''V_{R/C}''),
    Add_input ''cruise'' (Text (''V_'' @ bs # ''text{cruise}'')),
    Add_input ''others''
      (Text (bs # ''mathbf{V_'' @ bs # ''text{others}}, ...'')),
    Add_output ''opt'' (Text ''(T/W)^*, (W/S)^*''),
    Write ''ConstraintAnalysisXDSM'' True True False ''.'']"

definition constraint_analysis_xdsm :: "stmt list" where
  "constraint_analysis_xdsm = New_XDSM True # map Call constraint_analysis_calls"

subsection \<open>\<^verbatim>\<open>weight_estimation_xdsm.py\<close>\<close>

text \<open>
  An entry of \<^verbatim>\<open>figure_sets\<close> is a five-element list: the figure name at index 0 and a
  truth value at each of the indices 1 to 4.
\<close>

type_synonym figure_set = "string \<times> bool \<times> bool \<times> bool \<times> bool"

definition figure_sets :: "figure_set list" where
  "figure_sets =
   [(''WeightEstimationXDSM'', False, False, False, False),
    (''MissionSegmentWeightXDSM'', False, True, True, True),
    (''FuelWeightXDSM'', True, False, True, True),
    (''TakeoffWeightXDSM'', True, True, False, True),
    (''EmptyWeightXDSM'', True, True, True, False),
    (''TakeoffEmptyWeightXDSM'', True, True, False, False)]"

text \<open>The method calls of one pass through the loop body.\<close>

fun weight_estimation_calls :: "figure_set \<Rightarrow> call list" where
  "weight_estimation_calls (fs0, fs1, fs2, fs3, fs4) =
   [Add_system ''mission_segment'' FUNC
      (Lines [bs # ''text{Mission Segment}'', bs # ''text{Weight Fraction}'']) True fs1,
    Add_system ''fuel'' FUNC
      (Lines [bs # ''text{Fuel Weight}'', bs # ''text{Estimation}'']) False fs2,
    Add_system ''takeoff'' IFUNC
      (Lines [bs # ''text{Takeoff Weight }'', bs # ''text{Estimation}'']) False fs3,
    Add_system ''empty'' FUNC
      (Lines [bs # ''text{Empty Weight}'', bs # ''text{Estimation}'']) False fs4,
    Connect ''takeoff'' ''empty'' (Text (''W_'' @ bs # ''mathrm{TO}'')) False,
    Connect ''mission_segment'' ''fuel'' (Text ''WFs'') False,
    Connect ''fuel'' ''takeoff''
      (Text (''W_'' @ bs # ''mathrm{f}/W_'' @ bs # ''mathrm{TO}'')) False,
    Connect ''empty'' ''takeoff''
      (Text (''W_'' @ bs # ''mathrm{e}/W_'' @ bs # ''mathrm{TO}'')) False,
    Add_process [''mission_segment'', ''fuel'', ''takeoff'', ''empty'', ''takeoff''],
    Add_input ''mission_segment'' (Text (bs # ''text{Mission Data}'')),
    Add_input ''takeoff''
      (Text (''W_'' @ bs # ''text{crew}, W_'' @ bs # ''text{payload}, W_{''
             @ bs # ''mathrm{TO}_'' @ bs # ''text{init}}'')),
    Add_output ''takeoff'' (Text (''W_'' @ bs # ''mathrm{TO}^*'')),
    Write fs0 True True False ''.'']"

text \<open>The loop body: a fresh object, then the calls.\<close>

definition weight_estimation_body :: "figure_set \<Rightarrow> stmt list" where
  "weight_estimation_body figure_set =
     New_XDSM True # map Call (weight_estimation_calls figure_set)"

text \<open>The \<^verbatim>\<open>for\<close> loop over \<^verbatim>\<open>figure_sets\<close>, as the statements it executes in order.\<close>

fun for_loop :: "figure_set list \<Rightarrow> stmt list" where
  "for_loop [] = []"
| "for_loop (figure_set # rest) = weight_estimation_body figure_set @ for_loop rest"

definition weight_estimation_xdsm :: "stmt list" where
  "weight_estimation_xdsm = for_loop figure_sets"

subsection \<open>Objects and the execution of a script\<close>

text \<open>
  An \<^verbatim>\<open>XDSM\<close> object is known by its constructor argument and by the method calls it
  has received, oldest first.
\<close>

record xdsm =
  use_sfmath :: bool
  received :: "call list"

text \<open>
  The interpreter state is the list of the objects created so far, newest first; the
  variable \<^verbatim>\<open>x\<close> is bound to the head. A method call before any assignment to
  \<^verbatim>\<open>x\<close> is Python's \<^verbatim>\<open>NameError\<close>, the result \<open>None\<close>.
\<close>

fun exec :: "stmt \<Rightarrow> xdsm list \<Rightarrow> xdsm list option" where
  "exec (New_XDSM b) ds = Some (\<lparr>use_sfmath = b, received = []\<rparr> # ds)"
| "exec (Call c) [] = None"
| "exec (Call c) (d # ds) = Some (d\<lparr>received := received d @ [c]\<rparr> # ds)"

fun run :: "stmt list \<Rightarrow> xdsm list \<Rightarrow> xdsm list option" where
  "run [] ds = Some ds"
| "run (s # ss) ds = (case exec s ds of None \<Rightarrow> None | Some ds' \<Rightarrow> run ss ds')"

text \<open>The objects a script creates, in the order of their creation.\<close>

definition diagrams_of :: "stmt list \<Rightarrow> xdsm list option" where
  "diagrams_of script = map_option rev (run script [])"

definition built_by :: "stmt list \<Rightarrow> xdsm \<Rightarrow> bool" where
  "built_by script d =
     (case diagrams_of script of None \<Rightarrow> False | Some ds \<Rightarrow> d \<in> set ds)"

subsection \<open>What a sequence of calls declares and what it refers to\<close>

text \<open>The identifiers passed to \<^verbatim>\<open>add_system\<close>, in order.\<close>

fun declared :: "call list \<Rightarrow> string list" where
  "declared [] = []"
| "declared (Add_system n s l st fd # cs) = n # declared cs"
| "declared (c # cs) = declared cs"

text \<open>
  The system identifiers one call refers to: both endpoints of \<^verbatim>\<open>connect\<close>, the target
  of \<^verbatim>\<open>add_input\<close> and \<^verbatim>\<open>add_output\<close>, every entry of \<^verbatim>\<open>add_process\<close>.
\<close>

fun referenced :: "call \<Rightarrow> string list" where
  "referenced (Connect src target l st) = [src, target]"
| "referenced (Add_input n l) = [n]"
| "referenced (Add_output n l) = [n]"
| "referenced (Add_process systems) = systems"
| "referenced c = []"

text \<open>The endpoints of the \<^verbatim>\<open>connect\<close> calls, in order.\<close>

fun edges :: "call list \<Rightarrow> (string \<times> string) list" where
  "edges [] = []"
| "edges (Connect src target l st # cs) = (src, target) # edges cs"
| "edges (c # cs) = edges cs"

text \<open>The arguments of the \<^verbatim>\<open>add_process\<close> calls, in order.\<close>

fun processes :: "call list \<Rightarrow> string list list" where
  "processes [] = []"
| "processes (Add_process systems # cs) = systems # processes cs"
| "processes (c # cs) = processes cs"

text \<open>The \<^verbatim>\<open>faded\<close> arguments of the \<^verbatim>\<open>add_system\<close> calls, in order.\<close>

fun faded_flags :: "call list \<Rightarrow> bool list" where
  "faded_flags [] = []"
| "faded_flags (Add_system n s l st fd # cs) = fd # faded_flags cs"
| "faded_flags (c # cs) = faded_flags cs"

text \<open>The \<^verbatim>\<open>outdir\<close> and \<^verbatim>\<open>file_name\<close> arguments of the \<^verbatim>\<open>write\<close> calls, in order.\<close>

fun written :: "call list \<Rightarrow> (string \<times> string) list" where
  "written [] = []"
| "written (Write file_name build cleanup quiet outdir # cs) =
     (outdir, file_name) # written cs"
| "written (c # cs) = written cs"

text \<open>
  A call with the two arguments that vary between the figures of the weight-estimation
  family put to fixed values: \<^verbatim>\<open>faded\<close> of \<^verbatim>\<open>add_system\<close> and \<^verbatim>\<open>file_name\<close> of
  \<^verbatim>\<open>write\<close>.
\<close>

fun common_part :: "call \<Rightarrow> call" where
  "common_part (Add_system n s l st fd) = Add_system n s l st False"
| "common_part (Write file_name build cleanup quiet outdir) =
     Write [] build cleanup quiet outdir"
| "common_part c = c"

text \<open>The pairs of neighbours of a sequence.\<close>

fun consecutive :: "'a list \<Rightarrow> ('a \<times> 'a) list" where
  "consecutive (a # b # rest) = (a, b) # consecutive (b # rest)"
| "consecutive rest = []"

text \<open>
  A path closes on its first entry when it has at least two entries and the last one
  equals the first.
\<close>

definition closes_on_first :: "'a list \<Rightarrow> bool" where
  "closes_on_first p = (case p of [] \<Rightarrow> False | a # rest \<Rightarrow> rest \<noteq> [] \<and> last rest = a)"

text \<open>
  Where a path closes: the position of the first entry equal to the last one, when it
  lies before the last position.
\<close>

fun first_index :: "'a \<Rightarrow> 'a list \<Rightarrow> nat option" where
  "first_index a [] = None"
| "first_index a (b # rest) =
     (if a = b then Some 0 else map_option Suc (first_index a rest))"

definition loop_start :: "'a list \<Rightarrow> nat option" where
  "loop_start p = (case p of [] \<Rightarrow> None | a # rest \<Rightarrow> first_index (last p) (butlast p))"

text \<open>The object one pass through the loop body leaves behind.\<close>

definition weight_estimation_diagram :: "figure_set \<Rightarrow> xdsm" where
  "weight_estimation_diagram figure_set =
     \<lparr>use_sfmath = True, received = weight_estimation_calls figure_set\<rparr>"

definition constraint_analysis_diagram :: xdsm where
  "constraint_analysis_diagram =
     \<lparr>use_sfmath = True, received = constraint_analysis_calls\<rparr>"

section \<open>The Diagram Builder\<close>

text \<open>
  The class \<^verbatim>\<open>XDSM\<close> is imported from \<^verbatim>\<open>pyxdsm\<close> and its code is not part of the
  repository. The specification describes it as the Diagram Builder (sections 3, 4.1
  and 7); this section follows that description.
\<close>

text \<open>Modelled from the spec: the error taxonomy of section 7.\<close>

datatype error = DuplicateIdentifier | UnknownSystem | ExternalRenderingFailure

text \<open>Modelled from the spec: the role of a System (section 3).\<close>

datatype role = Optimizer | Solver | Function | Implicit_Function

text \<open>
  Modelled from the spec: a System (section 3), with its identifier, role, one or two
  lines of label, stacked flag and faded flag.
\<close>

record system =
  ident :: string
  role :: role
  labels :: "string list"
  stacked :: bool
  faded :: bool

text \<open>
  Modelled from the spec: a Connection (section 3), a directed edge between two System
  identifiers with a label and a stacked flag.
\<close>

record connection =
  from_id :: string
  to_id :: string
  edge_label :: string
  edge_stacked :: bool

text \<open>
  Modelled from the spec: a Diagram (section 3): the style flag, the ordered Systems, the
  Connections, the Input and Output annotations by System identifier, and the optional
  Process.
\<close>

record diagram =
  style_options :: bool
  systems :: "system list"
  connections :: "connection list"
  inputs :: "(string \<times> string list) list"
  outputs :: "(string \<times> string list) list"
  process :: "string list option"

text \<open>
  An operation either succeeds or fails with an error, and leaves a Diagram behind in
  both cases.
\<close>

type_synonym outcome = "(error + unit) \<times> diagram"

text \<open>Modelled from the spec: \<^verbatim>\<open>create(style_options)\<close>, a new empty Diagram.\<close>

definition create :: "bool \<Rightarrow> diagram" where
  "create style =
     \<lparr>style_options = style, systems = [], connections = [], inputs = [], outputs = [],
      process = None\<rparr>"

text \<open>Modelled from the spec: the identifiers of the Systems declared on a Diagram.\<close>

definition declared_ids :: "diagram \<Rightarrow> string list" where
  "declared_ids d = map ident (systems d)"

text \<open>Modelled from the spec: the System of a Diagram with a given identifier.\<close>

definition find_system :: "string \<Rightarrow> diagram \<Rightarrow> system option" where
  "find_system i d = List.find (\<lambda>s. ident s = i) (systems d)"

text \<open>
  Modelled from the spec: \<^verbatim>\<open>add_system(id, role, labels, stacked, faded)\<close> registers a
  System and fails with DuplicateIdentifier if the id is already present.
\<close>

definition add_system :: "string \<Rightarrow> role \<Rightarrow> string list \<Rightarrow> bool \<Rightarrow> bool \<Rightarrow> diagram \<Rightarrow> outcome" where
  "add_system i r ls st fd d =
     (if i \<in> set (declared_ids d) then (Inl DuplicateIdentifier, d)
      else (Inr (),
            d\<lparr>systems := systems d @
                 [\<lparr>ident = i, role = r, labels = ls, stacked = st, faded = fd\<rparr>]\<rparr>))"

text \<open>
  Modelled from the spec: \<^verbatim>\<open>connect(from_id, to_id, label, stacked)\<close> registers a
  Connection and fails with UnknownSystem if either endpoint is undeclared.
\<close>

definition connect :: "string \<Rightarrow> string \<Rightarrow> string \<Rightarrow> bool \<Rightarrow> diagram \<Rightarrow> outcome" where
  "connect src tgt l st d =
     (if src \<in> set (declared_ids d) \<and> tgt \<in> set (declared_ids d)
      then (Inr (),
            d\<lparr>connections := connections d @
                 [\<lparr>from_id = src, to_id = tgt, edge_label = l, edge_stacked = st\<rparr>]\<rparr>)
      else (Inl UnknownSystem, d))"

text \<open>
  Modelled from the spec: \<^verbatim>\<open>add_input(id, labels)\<close> attaches an annotation to an existing
  System and fails with UnknownSystem if the id is undeclared.
\<close>

definition add_input :: "string \<Rightarrow> string list \<Rightarrow> diagram \<Rightarrow> outcome" where
  "add_input i ls d =
     (if i \<in> set (declared_ids d) then (Inr (), d\<lparr>inputs := inputs d @ [(i, ls)]\<rparr>)
      else (Inl UnknownSystem, d))"

text \<open>
  Modelled from the spec: \<^verbatim>\<open>add_output(id, labels)\<close> attaches an annotation to an
  existing System and fails with UnknownSystem if the id is undeclared.
\<close>

definition add_output :: "string \<Rightarrow> string list \<Rightarrow> diagram \<Rightarrow> outcome" where
  "add_output i ls d =
     (if i \<in> set (declared_ids d) then (Inr (), d\<lparr>outputs := outputs d @ [(i, ls)]\<rparr>)
      else (Inl UnknownSystem, d))"

text \<open>
  Modelled from the spec: \<^verbatim>\<open>add_process(ordered_ids)\<close> records the execution order and
  fails with UnknownSystem if any id is undeclared. What a second call on the same
  Diagram does is left to the implementer by the spec; it is the parameter
  \<open>second_call\<close> here.
\<close>

definition add_process ::
  "(string list \<Rightarrow> diagram \<Rightarrow> outcome) \<Rightarrow> string list \<Rightarrow> diagram \<Rightarrow> outcome" where
  "add_process second_call ordered_ids d =
     (if list_all (\<lambda>i. i \<in> set (declared_ids d)) ordered_ids
      then (case process d of
              None \<Rightarrow> (Inr (), d\<lparr>process := Some ordered_ids\<rparr>)
            | Some p \<Rightarrow> second_call ordered_ids d)
      else (Inl UnknownSystem, d))"

section \<open>Properties of the scripts\<close>

subsection \<open>The diagrams the scripts build\<close>

lemma run_calls:
  "run (map Call cs) (d # ds) = Some (d\<lparr>received := received d @ cs\<rparr> # ds)"
  by (induction cs arbitrary: d) simp_all

lemma run_append:
  "run (ss @ ts) ds = (case run ss ds of None \<Rightarrow> None | Some ds' \<Rightarrow> run ts ds')"
  by (induction ss arbitrary: ds) (simp_all split: option.splits)

lemma run_body:
  "run (weight_estimation_body fs) ds = Some (weight_estimation_diagram fs # ds)"
  by (simp add: weight_estimation_body_def weight_estimation_diagram_def run_calls)

lemma run_for_loop:
  "run (for_loop fss) ds = Some (rev (map weight_estimation_diagram fss) @ ds)"
  by (induction fss arbitrary: ds) (simp_all add: run_append run_body)

lemma diagrams_of_weight_estimation:
  "diagrams_of weight_estimation_xdsm = Some (map weight_estimation_diagram figure_sets)"
  by (simp add: diagrams_of_def weight_estimation_xdsm_def run_for_loop rev_map)

lemma diagrams_of_constraint_analysis:
  "diagrams_of constraint_analysis_xdsm = Some [constraint_analysis_diagram]"
  by (simp add: diagrams_of_def constraint_analysis_xdsm_def constraint_analysis_diagram_def
      run_calls)

lemma built_by_constraint_analysis:
  "built_by constraint_analysis_xdsm d \<longleftrightarrow> d = constraint_analysis_diagram"
  by (auto simp add: built_by_def diagrams_of_constraint_analysis)

lemma built_by_weight_estimation:
  "built_by weight_estimation_xdsm d \<longleftrightarrow> d \<in> weight_estimation_diagram ` set figure_sets"
  by (simp add: built_by_def diagrams_of_weight_estimation)

lemma built_by_weight_estimationD:
  "built_by weight_estimation_xdsm d \<Longrightarrow> \<exists>fs. d = weight_estimation_diagram fs"
  unfolding built_by_weight_estimation by blast

lemma received_constraint_analysis:
  "received constraint_analysis_diagram = constraint_analysis_calls"
  by (simp add: constraint_analysis_diagram_def)

lemma received_weight_estimation:
  "received (weight_estimation_diagram fs) = weight_estimation_calls fs"
  by (simp add: weight_estimation_diagram_def)

lemma declared_constraint_analysis:
  "declared constraint_analysis_calls =
     [''opt'', ''aero'', ''stall'', ''climb'', ''cruise'', ''others'']"
  by (simp add: constraint_analysis_calls_def)

lemma declared_weight_estimation:
  "declared (weight_estimation_calls fs) = [''mission_segment'', ''fuel'', ''takeoff'', ''empty'']"
  by (cases fs) simp

lemma referenced_constraint_analysis:
  "set (concat (map referenced constraint_analysis_calls)) \<subseteq> set (declared constraint_analysis_calls)"
  unfolding declared_constraint_analysis
  by (simp add: constraint_analysis_calls_def)

lemma referenced_weight_estimation:
  "set (concat (map referenced (weight_estimation_calls fs))) \<subseteq> set (declared (weight_estimation_calls fs))"
  unfolding declared_weight_estimation
  by (cases fs) simp

lemma processes_constraint_analysis: "processes constraint_analysis_calls = []"
  by (simp add: constraint_analysis_calls_def)

lemma processes_weight_estimation:
  "processes (weight_estimation_calls fs) =
     [[''mission_segment'', ''fuel'', ''takeoff'', ''empty'', ''takeoff'']]"
  by (cases fs) simp

lemma edges_weight_estimation:
  "edges (weight_estimation_calls fs) =
     [(''takeoff'', ''empty''), (''mission_segment'', ''fuel''), (''fuel'', ''takeoff''),
      (''empty'', ''takeoff'')]"
  by (cases fs) simp

lemma referenced_closed:
  assumes "set (concat (map referenced cs)) \<subseteq> set (declared cs)"
    and "c \<in> set cs" and "i \<in> set (referenced c)"
  shows "i \<in> set (declared cs)"
  using assms by auto


subsection \<open>Referential closure and unique identifiers\<close>

text \<open>
  Claim C1. In every diagram built by either script, every identifier a call refers to
  (an endpoint of \<^verbatim>\<open>connect\<close>, the target of \<^verbatim>\<open>add_input\<close> or \<^verbatim>\<open>add_output\<close>, an entry
  of the sequence given to \<^verbatim>\<open>add_process\<close>) is an identifier that \<^verbatim>\<open>add_system\<close> declared
  on the same diagram.
\<close>

theorem referential_closure:
  assumes "built_by constraint_analysis_xdsm d \<or> built_by weight_estimation_xdsm d"
    and "c \<in> set (received d)" and "i \<in> set (referenced c)"
  shows "i \<in> set (declared (received d))"
proof -
  have "set (concat (map referenced (received d))) \<subseteq> set (declared (received d))"
    using assms(1)
  proof
    assume "built_by constraint_analysis_xdsm d"
    then have "received d = constraint_analysis_calls"
      by (simp add: built_by_constraint_analysis received_constraint_analysis)
    then show ?thesis
      using referenced_constraint_analysis by simp
  next
    assume "built_by weight_estimation_xdsm d"
    then obtain fs where "received d = weight_estimation_calls fs"
      using built_by_weight_estimationD received_weight_estimation by blast
    then show ?thesis
      using referenced_weight_estimation [of fs] by simp
  qed
  then show ?thesis
    using assms(2,3) by (rule referenced_closed)
qed

text \<open>
  The theorem at the diagram of the constraint-analysis script, the call
  \<^verbatim>\<open>x.connect('aero', 'stall', r'C_{D_0}, k')\<close> and its endpoint \<^verbatim>\<open>stall\<close>.
\<close>

theorem referential_closure_witness:
  "built_by constraint_analysis_xdsm constraint_analysis_diagram
   \<and> Connect ''aero'' ''stall'' (Text ''C_{D_0}, k'') False \<in> set (received constraint_analysis_diagram)
   \<and> ''stall'' \<in> set (referenced (Connect ''aero'' ''stall'' (Text ''C_{D_0}, k'') False))
   \<and> ''stall'' \<in> set (declared (received constraint_analysis_diagram))"
proof -
  have b: "built_by constraint_analysis_xdsm constraint_analysis_diagram
           \<or> built_by weight_estimation_xdsm constraint_analysis_diagram"
    by (simp add: built_by_constraint_analysis)
  have c: "Connect ''aero'' ''stall'' (Text ''C_{D_0}, k'') False
           \<in> set (received constraint_analysis_diagram)"
    by (simp add: received_constraint_analysis constraint_analysis_calls_def)
  have r: "''stall'' \<in> set (referenced (Connect ''aero'' ''stall'' (Text ''C_{D_0}, k'') False))"
    by simp
  show ?thesis
    using referential_closure [OF b c r] b c r by (simp add: built_by_constraint_analysis)
qed


text \<open>
  Claim C2. In every diagram built by either script, the identifiers given to
  \<^verbatim>\<open>add_system\<close> are pairwise distinct.
\<close>

theorem system_ids_distinct:
  assumes "built_by constraint_analysis_xdsm d \<or> built_by weight_estimation_xdsm d"
  shows "distinct (declared (received d))"
  using assms
  by (auto simp add: built_by_constraint_analysis received_constraint_analysis
      received_weight_estimation declared_constraint_analysis declared_weight_estimation
      dest!: built_by_weight_estimationD)

text \<open>The theorem at the third figure of the weight-estimation family.\<close>

theorem system_ids_distinct_witness:
  "built_by weight_estimation_xdsm
     (weight_estimation_diagram (''FuelWeightXDSM'', True, False, True, True))
   \<and> distinct (declared (received
        (weight_estimation_diagram (''FuelWeightXDSM'', True, False, True, True))))"
proof -
  have b: "built_by weight_estimation_xdsm
             (weight_estimation_diagram (''FuelWeightXDSM'', True, False, True, True))"
    by (simp add: built_by_weight_estimation figure_sets_def)
  then show ?thesis
    using system_ids_distinct [of "weight_estimation_diagram (''FuelWeightXDSM'', True, False, True, True)"]
    by simp
qed

subsection \<open>The process of the weight-estimation figures\<close>

text \<open>
  Claim C3, as stated: the sequence given to \<^verbatim>\<open>add_process\<close> ends on the identifier it
  starts with. It does not: the sequence starts with \<^verbatim>\<open>mission_segment\<close> and ends with
  \<^verbatim>\<open>takeoff\<close>. Shown at the first figure of the family.
\<close>

theorem process_closes_on_first_counterexample:
  "\<not> list_all closes_on_first
       (processes (received
          (weight_estimation_diagram (''WeightEstimationXDSM'', False, False, False, False))))"
  by (simp add: received_weight_estimation processes_weight_estimation closes_on_first_def)

text \<open>
  Claim C3, amended. Every diagram built by the weight-estimation script receives one
  \<^verbatim>\<open>add_process\<close> call, and its sequence is \<^verbatim>\<open>mission_segment\<close>, \<^verbatim>\<open>fuel\<close>, \<^verbatim>\<open>takeoff\<close>,
  \<^verbatim>\<open>empty\<close>, \<^verbatim>\<open>takeoff\<close>. It consists of declared identifiers, and its last entry
  \<^verbatim>\<open>takeoff\<close> repeats the third entry (position 2, counting from 0), so that the path
  closes as \<^verbatim>\<open>takeoff\<close>, \<^verbatim>\<open>empty\<close>, \<^verbatim>\<open>takeoff\<close> after the entries \<^verbatim>\<open>mission_segment\<close>
  and \<^verbatim>\<open>fuel\<close>; the last entry does not repeat the first.
\<close>

theorem process_closes_on_third:
  assumes "built_by weight_estimation_xdsm d"
  shows "\<exists>p. processes (received d) = [p]
           \<and> p = [''mission_segment'', ''fuel'', ''takeoff'', ''empty'', ''takeoff'']
           \<and> set p \<subseteq> set (declared (received d))
           \<and> loop_start p = Some 2 \<and> p ! 2 = ''takeoff'' \<and> last p = ''takeoff''
           \<and> take 2 p = [''mission_segment'', ''fuel'']
           \<and> drop 2 p = [''takeoff'', ''empty'', ''takeoff'']
           \<and> hd p = ''mission_segment'' \<and> \<not> closes_on_first p"
proof -
  obtain fs where "received d = weight_estimation_calls fs"
    using assms built_by_weight_estimationD received_weight_estimation by blast
  then show ?thesis
    by (simp add: processes_weight_estimation declared_weight_estimation loop_start_def
        closes_on_first_def)
qed

text \<open>The theorem at the fifth figure of the family.\<close>

theorem process_closes_on_third_witness:
  "built_by weight_estimation_xdsm
     (weight_estimation_diagram (''EmptyWeightXDSM'', True, True, True, False))
   \<and> processes (received
        (weight_estimation_diagram (''EmptyWeightXDSM'', True, True, True, False)))
       = [[''mission_segment'', ''fuel'', ''takeoff'', ''empty'', ''takeoff'']]
   \<and> loop_start [''mission_segment'', ''fuel'', ''takeoff'', ''empty'', ''takeoff''] = Some 2
   \<and> \<not> closes_on_first [''mission_segment'', ''fuel'', ''takeoff'', ''empty'', ''takeoff'']"
proof -
  have b: "built_by weight_estimation_xdsm
             (weight_estimation_diagram (''EmptyWeightXDSM'', True, True, True, False))"
    by (simp add: built_by_weight_estimation figure_sets_def)
  show ?thesis
    using process_closes_on_third [OF b] b by auto
qed

text \<open>
  Claim C9. In every diagram built by the weight-estimation script, the neighbouring
  pairs of the process sequence are \<^verbatim>\<open>mission_segment\<close> to \<^verbatim>\<open>fuel\<close>, \<^verbatim>\<open>fuel\<close> to
  \<^verbatim>\<open>takeoff\<close>, \<^verbatim>\<open>takeoff\<close> to \<^verbatim>\<open>empty\<close> and \<^verbatim>\<open>empty\<close> to \<^verbatim>\<open>takeoff\<close>, and each of them
  is the pair of endpoints of a \<^verbatim>\<open>connect\<close> call on the same diagram.
\<close>

theorem process_follows_connections:
  assumes "built_by weight_estimation_xdsm d" and "p \<in> set (processes (received d))"
  shows "consecutive p =
           [(''mission_segment'', ''fuel''), (''fuel'', ''takeoff''), (''takeoff'', ''empty''),
            (''empty'', ''takeoff'')]
         \<and> set (consecutive p) \<subseteq> set (edges (received d))"
proof -
  obtain fs where "received d = weight_estimation_calls fs"
    using assms(1) built_by_weight_estimationD received_weight_estimation by blast
  then show ?thesis
    using assms(2) by (simp add: processes_weight_estimation edges_weight_estimation)
qed

text \<open>The theorem at the second figure of the family.\<close>

theorem process_follows_connections_witness:
  "built_by weight_estimation_xdsm
     (weight_estimation_diagram (''MissionSegmentWeightXDSM'', False, True, True, True))
   \<and> [''mission_segment'', ''fuel'', ''takeoff'', ''empty'', ''takeoff'']
       \<in> set (processes (received
           (weight_estimation_diagram (''MissionSegmentWeightXDSM'', False, True, True, True))))
   \<and> set (consecutive [''mission_segment'', ''fuel'', ''takeoff'', ''empty'', ''takeoff''])
       \<subseteq> set (edges (received
           (weight_estimation_diagram (''MissionSegmentWeightXDSM'', False, True, True, True))))"
proof -
  have b: "built_by weight_estimation_xdsm
             (weight_estimation_diagram (''MissionSegmentWeightXDSM'', False, True, True, True))"
    by (simp add: built_by_weight_estimation figure_sets_def)
  have p: "[''mission_segment'', ''fuel'', ''takeoff'', ''empty'', ''takeoff'']
           \<in> set (processes (received
               (weight_estimation_diagram (''MissionSegmentWeightXDSM'', False, True, True, True))))"
    by (simp add: received_weight_estimation)
  show ?thesis
    using process_follows_connections [OF b p] b p by blast
qed

text \<open>
  Claim C8. A diagram built by the constraint-analysis script receives no
  \<^verbatim>\<open>add_process\<close> call, and a diagram built by the weight-estimation script receives
  exactly one; so no diagram receives a second one.
\<close>

theorem at_most_one_process:
  "(built_by constraint_analysis_xdsm d \<longrightarrow> processes (received d) = [])
   \<and> (built_by weight_estimation_xdsm d \<longrightarrow> length (processes (received d)) = 1)"
proof (intro conjI impI)
  assume "built_by constraint_analysis_xdsm d"
  then show "processes (received d) = []"
    by (simp add: built_by_constraint_analysis received_constraint_analysis
        processes_constraint_analysis)
next
  assume "built_by weight_estimation_xdsm d"
  then obtain fs where "received d = weight_estimation_calls fs"
    using built_by_weight_estimationD received_weight_estimation by blast
  then show "length (processes (received d)) = 1"
    by (simp add: processes_weight_estimation)
qed

text \<open>
  The theorem at the constraint-analysis diagram and at the fourth figure of the
  weight-estimation family.
\<close>

theorem at_most_one_process_witness:
  "built_by constraint_analysis_xdsm constraint_analysis_diagram
   \<and> processes (received constraint_analysis_diagram) = []
   \<and> built_by weight_estimation_xdsm
       (weight_estimation_diagram (''TakeoffWeightXDSM'', True, True, False, True))
   \<and> length (processes (received
        (weight_estimation_diagram (''TakeoffWeightXDSM'', True, True, False, True)))) = 1"
proof -
  have b1: "built_by constraint_analysis_xdsm constraint_analysis_diagram"
    by (simp add: built_by_constraint_analysis)
  have b2: "built_by weight_estimation_xdsm
              (weight_estimation_diagram (''TakeoffWeightXDSM'', True, True, False, True))"
    by (simp add: built_by_weight_estimation figure_sets_def)
  show ?thesis
    using at_most_one_process [of constraint_analysis_diagram]
      at_most_one_process
        [of "weight_estimation_diagram (''TakeoffWeightXDSM'', True, True, False, True)"]
      b1 b2
    by blast
qed

subsection \<open>The variants of the weight-estimation figure\<close>

lemma faded_flags_weight_estimation:
  "faded_flags (weight_estimation_calls (n, f1, f2, f3, f4)) = [f1, f2, f3, f4]"
  by simp

lemma written_weight_estimation:
  "written (weight_estimation_calls (n, f1, f2, f3, f4)) = [(''.'', n)]"
  by simp

lemma common_part_weight_estimation:
  "map common_part (weight_estimation_calls (n, f1, f2, f3, f4)) =
   map common_part (weight_estimation_calls (n', f1', f2', f3', f4'))"
  by simp

lemma call_determined:
  assumes "common_part c = common_part c'" and "faded_flags [c] = faded_flags [c']"
    and "written [c] = written [c']"
  shows "c = c'"
  using assms by (cases c; cases c') simp_all

text \<open>
  Claim C4. One pass through the loop body, started in any interpreter state, adds
  exactly the diagram of its own configuration record and leaves the earlier objects as
  they are; the script builds the diagrams of the six records in order. Two variants
  have the same constructor argument and the same calls up to the \<^verbatim>\<open>faded\<close> arguments and
  the file name; the four \<^verbatim>\<open>faded\<close> arguments are the entries 1 to 4 of the record and the
  file name is its entry 0.
\<close>

theorem variants_share_content:
  "run (weight_estimation_body (n, f1, f2, f3, f4)) ds =
     Some (weight_estimation_diagram (n, f1, f2, f3, f4) # ds)
   \<and> diagrams_of weight_estimation_xdsm = Some (map weight_estimation_diagram figure_sets)
   \<and> use_sfmath (weight_estimation_diagram (n, f1, f2, f3, f4)) =
       use_sfmath (weight_estimation_diagram (n', f1', f2', f3', f4'))
   \<and> map common_part (received (weight_estimation_diagram (n, f1, f2, f3, f4))) =
       map common_part (received (weight_estimation_diagram (n', f1', f2', f3', f4')))
   \<and> faded_flags (received (weight_estimation_diagram (n, f1, f2, f3, f4))) = [f1, f2, f3, f4]
   \<and> map snd (written (received (weight_estimation_diagram (n, f1, f2, f3, f4)))) = [n]"
  unfolding received_weight_estimation faded_flags_weight_estimation written_weight_estimation
  using common_part_weight_estimation [of n f1 f2 f3 f4 n' f1' f2' f3' f4']
  by (simp add: run_body diagrams_of_weight_estimation weight_estimation_diagram_def)

subsection \<open>The files of the weight-estimation figures\<close>

lemma heads_distinct: "distinct (map (\<lambda>g. take 8 (fst g)) figure_sets)"
  by (simp add: figure_sets_def)

lemma heads_long: "list_all (\<lambda>g. 8 \<le> length (fst g)) figure_sets"
  by (simp add: figure_sets_def)

lemma names_prefix_free:
  assumes "fs \<in> set figure_sets" and "fs' \<in> set figure_sets" and "fs \<noteq> fs'"
  shows "fst fs @ s \<noteq> fst fs' @ s'"
proof
  assume eq: "fst fs @ s = fst fs' @ s'"
  have "8 \<le> length (fst fs)" and "8 \<le> length (fst fs')"
    using heads_long assms(1,2) by (simp_all add: list_all_iff)
  then have "take 8 (fst fs @ s) = take 8 (fst fs)" and "take 8 (fst fs' @ s') = take 8 (fst fs')"
    by simp_all
  with eq have "take 8 (fst fs) = take 8 (fst fs')"
    by simp
  moreover have "inj_on (\<lambda>g. take 8 (fst g)) (set figure_sets)"
    using heads_distinct by (simp add: distinct_map)
  ultimately have "fs = fs'"
    using assms(1,2) by (auto dest: inj_onD)
  with assms(3) show False by simp
qed

lemma names_distinct: "distinct (map fst figure_sets)"
  by (simp add: figure_sets_def)

lemma written_diagram:
  "written (received (weight_estimation_diagram g)) = [(''.'', fst g)]"
  by (cases g) (simp add: received_weight_estimation)

text \<open>
  Claim C10. The six figure names of \<^verbatim>\<open>figure_sets\<close> are pairwise distinct. The
  \<^verbatim>\<open>write\<close> call of each pass has the directory \<^verbatim>\<open>'.'\<close> and the name of its own record, and
  for two different records no file name made of the first name and a suffix equals one
  made of the second name and a suffix.
\<close>

theorem figure_names_distinct:
  assumes "fs \<in> set figure_sets" and "fs' \<in> set figure_sets" and "fs \<noteq> fs'"
  shows "distinct (map fst figure_sets)
         \<and> written (received (weight_estimation_diagram fs)) = [(''.'', fst fs)]
         \<and> written (received (weight_estimation_diagram fs')) = [(''.'', fst fs')]
         \<and> fst fs \<noteq> fst fs'
         \<and> (\<forall>s s'. fst fs @ s \<noteq> fst fs' @ s')"
proof -
  have 3: "fst fs @ s \<noteq> fst fs' @ s'" for s s'
    using assms by (rule names_prefix_free)
  from 3 [of "[]" "[]"] have 4: "fst fs \<noteq> fst fs'"
    by simp
  show ?thesis
    using names_distinct written_diagram [of fs] written_diagram [of fs'] 3 4 by blast
qed

text \<open>The theorem at the third and the fourth record, with the suffix \<^verbatim>\<open>.tex\<close>.\<close>

theorem figure_names_distinct_witness:
  "(''FuelWeightXDSM'', True, False, True, True) \<in> set figure_sets
   \<and> (''TakeoffWeightXDSM'', True, True, False, True) \<in> set figure_sets
   \<and> ''FuelWeightXDSM'' @ ''.tex'' \<noteq> ''TakeoffWeightXDSM'' @ ''.tex''
   \<and> written (received (weight_estimation_diagram (''FuelWeightXDSM'', True, False, True, True)))
       = [(''.'', ''FuelWeightXDSM'')]"
proof -
  have a: "(''FuelWeightXDSM'', True, False, True, True) \<in> set figure_sets"
    and b: "(''TakeoffWeightXDSM'', True, True, False, True) \<in> set figure_sets"
    by (simp_all add: figure_sets_def)
  have c: "(''FuelWeightXDSM'', True, False, True, True)
           \<noteq> (''TakeoffWeightXDSM'', True, True, False, True)"
    by simp
  show ?thesis
    using figure_names_distinct [OF a b c] a b by simp
qed

section \<open>Properties of the Diagram Builder\<close>

lemma find_by_key:
  "k \<in> set (map f xs) \<Longrightarrow> \<exists>s. List.find (\<lambda>s. f s = k) xs = Some s \<and> f s = k"
  by (induction xs) auto

lemma find_system_declared:
  "i \<in> set (declared_ids d) \<Longrightarrow> \<exists>s. find_system i d = Some s \<and> ident s = i"
  unfolding declared_ids_def find_system_def by (rule find_by_key)

text \<open>
  Claim C5. On every Diagram, \<^verbatim>\<open>connect\<close> with an undeclared endpoint, \<^verbatim>\<open>add_input\<close> and
  \<^verbatim>\<open>add_output\<close> with an undeclared identifier, and \<^verbatim>\<open>add_process\<close> with a sequence holding
  an undeclared identifier fail with UnknownSystem and leave the Diagram as it was, its
  declared Systems included. In particular \<^verbatim>\<open>connect("missing", "opt", "x")\<close> on an empty
  Diagram fails with UnknownSystem and the Diagram has no Connection afterwards.
\<close>

theorem unknown_system_rejected:
  "(src \<notin> set (declared_ids d) \<or> tgt \<notin> set (declared_ids d)
      \<longrightarrow> connect src tgt l st d = (Inl UnknownSystem, d))
   \<and> (i \<notin> set (declared_ids d)
      \<longrightarrow> add_input i ls d = (Inl UnknownSystem, d)
        \<and> add_output i ls d = (Inl UnknownSystem, d))
   \<and> (i \<in> set ids \<and> i \<notin> set (declared_ids d)
      \<longrightarrow> add_process second_call ids d = (Inl UnknownSystem, d))
   \<and> connect ''missing'' ''opt'' ''x'' False (create style) = (Inl UnknownSystem, create style)
   \<and> connections (snd (connect ''missing'' ''opt'' ''x'' False (create style))) = []"
  by (auto simp add: connect_def add_input_def add_output_def add_process_def create_def
      declared_ids_def list_all_iff)

text \<open>
  The theorem at the Diagram that declares \<^verbatim>\<open>opt\<close> alone, with the undeclared
  identifier \<^verbatim>\<open>missing\<close>.
\<close>

theorem unknown_system_rejected_witness:
  "''missing'' \<notin> set (declared_ids (snd (add_system ''opt'' Optimizer [''O''] False False (create True))))
   \<and> declared_ids (snd (add_system ''opt'' Optimizer [''O''] False False (create True))) = [''opt'']
   \<and> connect ''missing'' ''opt'' ''x'' False
        (snd (add_system ''opt'' Optimizer [''O''] False False (create True)))
       = (Inl UnknownSystem, snd (add_system ''opt'' Optimizer [''O''] False False (create True)))
   \<and> add_input ''missing'' [''y'']
        (snd (add_system ''opt'' Optimizer [''O''] False False (create True)))
       = (Inl UnknownSystem, snd (add_system ''opt'' Optimizer [''O''] False False (create True)))
   \<and> add_output ''missing'' [''y'']
        (snd (add_system ''opt'' Optimizer [''O''] False False (create True)))
       = (Inl UnknownSystem, snd (add_system ''opt'' Optimizer [''O''] False False (create True)))
   \<and> add_process (\<lambda>ids d. (Inr (), d)) [''opt'', ''missing'']
        (snd (add_system ''opt'' Optimizer [''O''] False False (create True)))
       = (Inl UnknownSystem, snd (add_system ''opt'' Optimizer [''O''] False False (create True)))"
proof -
  have d: "declared_ids (snd (add_system ''opt'' Optimizer [''O''] False False (create True)))
           = [''opt'']"
    by (simp add: add_system_def create_def declared_ids_def)
  have m: "''missing'' \<notin> set (declared_ids
             (snd (add_system ''opt'' Optimizer [''O''] False False (create True))))"
    unfolding d by simp
  have p: "''missing'' \<in> set [''opt'', ''missing'']"
    by simp
  show ?thesis
    using unknown_system_rejected
      [of "''missing''" "snd (add_system ''opt'' Optimizer [''O''] False False (create True))"
          "''opt''" "''x''" False "''missing''" "[''y'']" "[''opt'', ''missing'']"
          "\<lambda>ids d. (Inr (), d)" True]
      d m p
    by blast
qed

text \<open>
  Claim C6. On every Diagram, \<^verbatim>\<open>add_system\<close> with an identifier already present fails with
  DuplicateIdentifier and leaves the Diagram as it was, so the System found under that
  identifier is the original one. In particular, after \<^verbatim>\<open>add_system("a", Function, ["A"])\<close>
  the call \<^verbatim>\<open>add_system("a", Function, ["B"])\<close> fails with DuplicateIdentifier and System
  \<^verbatim>\<open>a\<close> still has the labels \<^verbatim>\<open>["A"]\<close>.
\<close>

theorem duplicate_identifier_rejected:
  "(i \<in> set (declared_ids d)
      \<longrightarrow> add_system i r ls st fd d = (Inl DuplicateIdentifier, d)
        \<and> find_system i d \<noteq> None
        \<and> find_system i (snd (add_system i r ls st fd d)) = find_system i d)
   \<and> fst (add_system ''a'' Function [''A''] False False (create style)) = Inr ()
   \<and> fst (add_system ''a'' Function [''B''] False False
            (snd (add_system ''a'' Function [''A''] False False (create style))))
       = Inl DuplicateIdentifier
   \<and> map_option labels
        (find_system ''a''
           (snd (add_system ''a'' Function [''B''] False False
              (snd (add_system ''a'' Function [''A''] False False (create style))))))
       = Some [''A'']"
proof -
  have "add_system i r ls st fd d = (Inl DuplicateIdentifier, d)
        \<and> find_system i d \<noteq> None
        \<and> find_system i (snd (add_system i r ls st fd d)) = find_system i d"
    if "i \<in> set (declared_ids d)"
    using that find_system_declared [OF that] by (auto simp add: add_system_def)
  moreover have "fst (add_system ''a'' Function [''A''] False False (create style)) = Inr ()"
    by (simp add: add_system_def create_def declared_ids_def)
  moreover have "fst (add_system ''a'' Function [''B''] False False
            (snd (add_system ''a'' Function [''A''] False False (create style))))
       = Inl DuplicateIdentifier"
    by (simp add: add_system_def create_def declared_ids_def)
  moreover have "map_option labels
        (find_system ''a''
           (snd (add_system ''a'' Function [''B''] False False
              (snd (add_system ''a'' Function [''A''] False False (create style))))))
       = Some [''A'']"
    by (simp add: add_system_def create_def declared_ids_def find_system_def)
  ultimately show ?thesis
    by blast
qed

text \<open>The theorem at the Diagram that declares \<^verbatim>\<open>a\<close> alone.\<close>

theorem duplicate_identifier_rejected_witness:
  "''a'' \<in> set (declared_ids (snd (add_system ''a'' Function [''A''] False False (create True))))
   \<and> add_system ''a'' Function [''B''] False False
        (snd (add_system ''a'' Function [''A''] False False (create True)))
       = (Inl DuplicateIdentifier, snd (add_system ''a'' Function [''A''] False False (create True)))"
proof -
  have a: "''a'' \<in> set (declared_ids
             (snd (add_system ''a'' Function [''A''] False False (create True))))"
    by (simp add: add_system_def create_def declared_ids_def)
  show ?thesis
    using duplicate_identifier_rejected
      [of "''a''" "snd (add_system ''a'' Function [''A''] False False (create True))"
          Function "[''B'']" False False True] a
    by blast
qed

end
